theory Spec2Isabelle
  imports Main
begin

section \<open>Exceptions and HTTP results\<close>

text \<open>
  The Python exceptions that the two modules raise or catch. \<open>HTTPException\<close> carries
  the status code and the detail, \<open>AttributeError\<close> the type name of the object and
  the attribute that was missing; every other exception carries the text that
  \<open>str(e)\<close> yields. \<open>Exception\<close> stands for any exception class not named here.
  All of them are caught by \<open>except Exception\<close>.
\<close>

datatype exn =
    HTTPException nat string
  | RuntimeError string
  | AttributeError string string
  | TypeError string
  | Exception string

text \<open>Decimal rendering of a status code, as an f-string prints an int.\<close>

fun dec :: "nat \<Rightarrow> string" where
  "dec n = (if n < 10 then [char_of (48 + n)]
            else dec (n div 10) @ [char_of (48 + n mod 10)])"

declare dec.simps [simp del]

text \<open>
  \<open>str(e)\<close>. Starlette's \<open>HTTPException.__str__\<close> prints the status code, a colon
  and the detail; the built-in exceptions print their single argument.
\<close>

fun str_exn :: "exn \<Rightarrow> string" where
  "str_exn (HTTPException c d) = dec c @ '': '' @ d"
| "str_exn (RuntimeError m) = m"
| "str_exn (AttributeError ty attr) =
     [CHR 0x27] @ ty @ [CHR 0x27] @ '' object has no attribute '' @ [CHR 0x27] @ attr @ [CHR 0x27]"
| "str_exn (TypeError m) = m"
| "str_exn (Exception m) = m"

text \<open>
  The handler pair \<open>except HTTPException: raise\<close> followed by
  \<open>except Exception as e: raise HTTPException(500, prefix + str(e))\<close>.
\<close>

fun reraise_or_500 :: "string \<Rightarrow> exn \<Rightarrow> exn" where
  "reraise_or_500 prefix (HTTPException c d) = HTTPException c d"
| "reraise_or_500 prefix e = HTTPException 500 (prefix @ str_exn e)"

text \<open>
  The status the client sees: the code of a raised \<open>HTTPException\<close>, 200 for a
  returned value, and 500 for any other exception that leaves the handler.
\<close>

fun status_of :: "exn + 'a \<Rightarrow> nat" where
  "status_of (Inr v) = 200"
| "status_of (Inl (HTTPException c d)) = c"
| "status_of (Inl e) = 500"

section \<open>Data model\<close>

text \<open>
  The request and response objects of \<open>models.words_model\<close> and \<open>models.user\<close>, with
  the fields that \<open>api/words.py\<close> reads or sets. Field names carry a prefix per class
  (\<open>wr_\<close> for WordResponse, \<open>wc_\<close> for WordCreate, \<open>dm_\<close> for DialogueMessage, \<open>us_\<close>
  for a usage entry) because record fields share one name space; \<open>wr_id\<close> is the
  field \<open>id\<close>. Timestamps are natural numbers.
\<close>

record user =
  user_id :: string

record word_response =
  wr_id :: string
  wr_user_id :: string
  wr_word :: string
  wr_translation :: string
  wr_example :: string
  wr_created_at :: nat

record word_create =
  wc_user_id :: string
  wc_word :: string
  wc_translation :: string
  wc_example :: string

record dialogue_message =
  dm_user_id :: string
  dm_message :: string

record dialogue_response =
  response :: string
  suggested_words :: "string list"

record usage =
  us_translation :: string
  us_fr :: string

record word_suggestion =
  new_words :: "string list"
  usages :: "string \<rightharpoonup> usage"

section \<open>Word endpoints (api/words.py)\<close>

text \<open>
  The word store \<open>db.words\<close> is an external collaborator: each endpoint takes the store
  functions it calls as arguments. A store function receives the store state \<open>'s\<close> and
  returns the updated state together with its result, \<open>Inl e\<close> when it raised \<open>e\<close>.
  The endpoint returns \<open>Inl\<close> of the exception it raises or \<open>Inr\<close> of its value,
  and the store state it leaves behind. \<open>current_user\<close> is the identity that the auth
  dependency resolved.
\<close>

definition get_user_words_endpoint ::
  "(string \<Rightarrow> 's \<Rightarrow> (exn + word_response list) \<times> 's) \<Rightarrow>
   string \<Rightarrow> user \<Rightarrow> 's \<Rightarrow> (exn + word_response list) \<times> 's" where
  "get_user_words_endpoint get_user_words uid current_user s =
     (if user_id current_user \<noteq> uid
      then (Inl (HTTPException 403 ''Can only access your own words''), s)
      else (case get_user_words uid s of
              (Inr ws, s') \<Rightarrow> (Inr ws, s')
            | (Inl e, s') \<Rightarrow>
                (Inl (HTTPException 500 (''Failed to fetch words: '' @ str_exn e)), s')))"

definition create_word_endpoint ::
  "(string \<Rightarrow> word_create \<Rightarrow> 's \<Rightarrow> (exn + word_response) \<times> 's) \<Rightarrow>
   word_create \<Rightarrow> user \<Rightarrow> 's \<Rightarrow> (exn + word_response) \<times> 's" where
  "create_word_endpoint create_word word current_user s =
     (if user_id current_user \<noteq> wc_user_id word
      then (Inl (HTTPException 403 ''Can only create words for yourself''), s)
      else (case create_word (wc_user_id word) word s of
              (Inr new_word, s') \<Rightarrow> (Inr new_word, s')
            | (Inl e, s') \<Rightarrow>
                (Inl (HTTPException 500 (''Failed to create word: '' @ str_exn e)), s')))"

text \<open>
  \<open>update_word\<close> returns \<open>None\<close> for a missing word. The store call comes first; the
  ownership comparison is made on the word that the store returned.
\<close>

definition update_word_endpoint ::
  "(string \<Rightarrow> 'u \<Rightarrow> 's \<Rightarrow> (exn + word_response option) \<times> 's) \<Rightarrow>
   string \<Rightarrow> 'u \<Rightarrow> user \<Rightarrow> 's \<Rightarrow> (exn + word_response) \<times> 's" where
  "update_word_endpoint update_word word_id updates current_user s =
     (case update_word word_id updates s of
        (Inl e, s') \<Rightarrow> (Inl (reraise_or_500 ''Failed to update word: '' e), s')
      | (Inr None, s') \<Rightarrow> (Inl (HTTPException 404 ''Word not found''), s')
      | (Inr (Some updated_word), s') \<Rightarrow>
          (if wr_user_id updated_word \<noteq> user_id current_user
           then (Inl (HTTPException 403 ''Can only update your own words''), s')
           else (Inr updated_word, s')))"

text \<open>
  The word is looked up among the caller's own words
  (\<open>next((w for w in words if w.id == word_id), None)\<close> is \<open>find\<close>); only when it is
  there is \<open>delete_word\<close> called. The value returned is the text of the \<open>message\<close> entry.
\<close>

definition delete_word_endpoint ::
  "(string \<Rightarrow> 's \<Rightarrow> (exn + word_response list) \<times> 's) \<Rightarrow>
   (string \<Rightarrow> 's \<Rightarrow> (exn + bool) \<times> 's) \<Rightarrow>
   string \<Rightarrow> user \<Rightarrow> 's \<Rightarrow> (exn + string) \<times> 's" where
  "delete_word_endpoint get_user_words delete_word word_id current_user s =
     (case get_user_words (user_id current_user) s of
        (Inl e, s') \<Rightarrow> (Inl (reraise_or_500 ''Failed to delete word: '' e), s')
      | (Inr ws, s') \<Rightarrow>
          (case find (\<lambda>w. wr_id w = word_id) ws of
             None \<Rightarrow> (Inl (HTTPException 404 ''Word not found''), s')
           | Some word_to_delete \<Rightarrow>
               (case delete_word word_id s' of
                  (Inl e, s'') \<Rightarrow> (Inl (reraise_or_500 ''Failed to delete word: '' e), s'')
                | (Inr success, s'') \<Rightarrow>
                    (if \<not> success
                     then (Inl (HTTPException 404 ''Word not found''), s'')
                     else (Inr ''Word deleted successfully'', s'')))))"

section \<open>An in-memory word store\<close>

text \<open>
  Modelled from the spec: the word store \<open>db.words\<close> (\<open>get_user_words\<close>, \<open>create_word\<close>,
  \<open>update_word\<close>, \<open>delete_word\<close>) and the class \<open>WordUpdate\<close> are not among the
  sources. The spec describes CRUD operations on a per-user word collection keyed by
  word id, with ids made unique by the store and no ownership check in the store. The
  store here keeps the words in insertion order and a counter for fresh ids; an update
  replaces the fields that are present in the \<open>WordUpdate\<close>.
\<close>

text \<open>Modelled from the spec: \<open>WordUpdate\<close>, the optional new values of the editable fields.\<close>

record word_update =
  wu_word :: "string option"
  wu_translation :: "string option"
  wu_example :: "string option"

text \<open>Modelled from the spec: the state of the word store.\<close>

record store =
  words :: "word_response list"
  next_id :: nat

text \<open>Modelled from the spec: the effect of a \<open>WordUpdate\<close> on one word; id and owner stay.\<close>

definition apply_update :: "word_update \<Rightarrow> word_response \<Rightarrow> word_response" where
  "apply_update u w =
     w\<lparr>wr_word := (case wu_word u of None \<Rightarrow> wr_word w | Some x \<Rightarrow> x),
       wr_translation := (case wu_translation u of None \<Rightarrow> wr_translation w | Some x \<Rightarrow> x),
       wr_example := (case wu_example u of None \<Rightarrow> wr_example w | Some x \<Rightarrow> x)\<rparr>"

text \<open>Modelled from the spec: \<open>get_user_words(user_id)\<close>, the words of one user.\<close>

definition mem_get_user_words ::
  "string \<Rightarrow> store \<Rightarrow> (exn + word_response list) \<times> store" where
  "mem_get_user_words uid st = (Inr (filter (\<lambda>w. wr_user_id w = uid) (words st)), st)"

text \<open>Modelled from the spec: \<open>create_word(user_id, word)\<close>, which generates the id.\<close>

definition mem_create_word ::
  "string \<Rightarrow> word_create \<Rightarrow> store \<Rightarrow> (exn + word_response) \<times> store" where
  "mem_create_word uid wc st =
     (let w = \<lparr>wr_id = ''w'' @ dec (next_id st), wr_user_id = uid, wr_word = wc_word wc,
                wr_translation = wc_translation wc, wr_example = wc_example wc,
                wr_created_at = next_id st\<rparr>
      in (Inr w, st\<lparr>words := words st @ [w], next_id := Suc (next_id st)\<rparr>))"

text \<open>Modelled from the spec: \<open>update_word(word_id, updates)\<close>, keyed by the word id alone;
  \<open>None\<close> when no word has the id.\<close>

definition mem_update_word ::
  "string \<Rightarrow> word_update \<Rightarrow> store \<Rightarrow> (exn + word_response option) \<times> store" where
  "mem_update_word wid u st =
     (case find (\<lambda>w. wr_id w = wid) (words st) of
        None \<Rightarrow> (Inr None, st)
      | Some w \<Rightarrow>
          (Inr (Some (apply_update u w)),
           st\<lparr>words := map (\<lambda>x. if wr_id x = wid then apply_update u x else x) (words st)\<rparr>))"

text \<open>Modelled from the spec: \<open>delete_word(word_id)\<close>, keyed by the word id alone; \<open>False\<close>
  when no word has the id.\<close>

definition mem_delete_word :: "string \<Rightarrow> store \<Rightarrow> (exn + bool) \<times> store" where
  "mem_delete_word wid st =
     (case find (\<lambda>w. wr_id w = wid) (words st) of
        None \<Rightarrow> (Inr False, st)
      | Some w \<Rightarrow> (Inr True, st\<lparr>words := filter (\<lambda>x. wr_id x \<noteq> wid) (words st)\<rparr>))"

text \<open>Two users, a store in which the only word belongs to Bob, and that store after the
  word was deleted.\<close>

definition alice :: user where
  "alice = \<lparr>user_id = ''alice''\<rparr>"

definition bob :: user where
  "bob = \<lparr>user_id = ''bob''\<rparr>"

definition bobs_word :: word_response where
  "bobs_word = \<lparr>wr_id = ''w0'', wr_user_id = ''bob'', wr_word = ''chat'',
                 wr_translation = ''cat'', wr_example = ''Le chat dort.'',
                 wr_created_at = 0\<rparr>"

definition bobs_store :: store where
  "bobs_store = \<lparr>words = [bobs_word], next_id = 1\<rparr>"

definition emptied_store :: store where
  "emptied_store = \<lparr>words = [], next_id = 1\<rparr>"

definition new_translation :: word_update where
  "new_translation = \<lparr>wu_word = None, wu_translation = Some ''dog'', wu_example = None\<rparr>"

definition word_for_bob :: word_create where
  "word_for_bob = \<lparr>wc_user_id = ''bob'', wc_word = ''chien'', wc_translation = ''dog'',
                    wc_example = ''Le chien dort.''\<rparr>"

section \<open>Dialogue and suggestion endpoints (api/words.py)\<close>

text \<open>
  What a call of \<open>suggest_new_words_for_user\<close> hands back. The function lives in
  \<open>services.words_service\<close>, outside these sources, so the endpoints take it as an
  argument. A call of an \<open>async def\<close> function runs nothing and returns a coroutine
  object, whose body runs when it is awaited; a call of a plain function returns its
  value, \<open>None\<close> standing for Python's \<open>None\<close>.
\<close>

datatype 's call_result =
    Coroutine "'s \<Rightarrow> (exn + word_suggestion option) \<times> 's"
  | Returned "word_suggestion option"

text \<open>
  A function declared with \<open>async def\<close>: a call raises nothing, leaves the state
  alone and returns a coroutine object.
\<close>

definition async_def :: "(string \<Rightarrow> 's \<Rightarrow> (exn + 's call_result) \<times> 's) \<Rightarrow> bool" where
  "async_def f \<longleftrightarrow> (\<forall>uid s. \<exists>body. f uid s = (Inr (Coroutine body), s))"

text \<open>
  \<open>await obj\<close>: runs a coroutine; any other object raises \<open>TypeError\<close>, whose text
  names the type of the object.
\<close>

fun await :: "'s call_result \<Rightarrow> 's \<Rightarrow> (exn + word_suggestion option) \<times> 's" where
  "await (Coroutine body) s = body s"
| "await (Returned None) s =
     (Inl (TypeError ''object NoneType can't be used in 'await' expression''), s)"
| "await (Returned (Some v)) s =
     (Inl (TypeError ''object WordSuggestion can't be used in 'await' expression''), s)"

text \<open>
  \<open>obj.new_words\<close>: a coroutine object and \<open>None\<close> have no such attribute, a
  \<open>WordSuggestion\<close> has.
\<close>

fun getattr_new_words :: "'s call_result \<Rightarrow> exn + string list" where
  "getattr_new_words (Coroutine body) = Inl (AttributeError ''coroutine'' ''new_words'')"
| "getattr_new_words (Returned None) = Inl (AttributeError ''NoneType'' ''new_words'')"
| "getattr_new_words (Returned (Some ws)) = Inr (new_words ws)"

text \<open>
  \<open>chat_with_ai\<close> calls \<open>suggest_new_words_for_user\<close> without \<open>await\<close> and reads
  \<open>new_words\<close> from what the call returned; the inner \<open>except Exception\<close> replaces
  any failure of these two lines by the empty list.
\<close>

definition chat_with_ai ::
  "(string \<Rightarrow> string \<Rightarrow> 's \<Rightarrow> (exn + string) \<times> 's) \<Rightarrow>
   (string \<Rightarrow> 's \<Rightarrow> (exn + 's call_result) \<times> 's) \<Rightarrow>
   dialogue_message \<Rightarrow> user \<Rightarrow> 's \<Rightarrow> (exn + dialogue_response) \<times> 's" where
  "chat_with_ai run_dialogue_turn suggest_new_words_for_user message current_user s =
     (if user_id current_user \<noteq> dm_user_id message
      then (Inl (HTTPException 403 ''Can only send messages for yourself''), s)
      else (case run_dialogue_turn (dm_user_id message) (dm_message message) s of
              (Inl e, s1) \<Rightarrow>
                (Inl (HTTPException 500 (''Failed to process message: '' @ str_exn e)), s1)
            | (Inr ai_response, s1) \<Rightarrow>
                (case suggest_new_words_for_user (dm_user_id message) s1 of
                   (Inl e, s2) \<Rightarrow>
                     (Inr \<lparr>response = ai_response, suggested_words = []\<rparr>, s2)
                 | (Inr word_suggestion, s2) \<Rightarrow>
                     (case getattr_new_words word_suggestion of
                        Inl e \<Rightarrow>
                          (Inr \<lparr>response = ai_response, suggested_words = []\<rparr>, s2)
                      | Inr ws \<Rightarrow>
                          (Inr \<lparr>response = ai_response, suggested_words = ws\<rparr>, s2)))))"

text \<open>
  The loop of \<open>get_new_words_endpoint\<close> over \<open>word_suggestion.new_words\<close>: a word
  whose \<open>usages.get(word)\<close> is \<open>None\<close> is skipped, any other word appends one
  \<open>WordResponse\<close>. \<open>now\<close> is \<open>datetime.now()\<close>, read once per appended entry.
\<close>

fun new_word_objs ::
  "('s \<Rightarrow> nat \<times> 's) \<Rightarrow> string \<Rightarrow> (string \<rightharpoonup> usage) \<Rightarrow> string list \<Rightarrow>
   word_response list \<Rightarrow> 's \<Rightarrow> word_response list \<times> 's" where
  "new_word_objs now uid us [] acc s = (acc, s)"
| "new_word_objs now uid us (w # ws) acc s =
     (case us w of
        None \<Rightarrow> new_word_objs now uid us ws acc s
      | Some u \<Rightarrow>
          (case now s of
             (t, s') \<Rightarrow>
               new_word_objs now uid us ws
                 (acc @ [\<lparr>wr_id = ''new_'' @ w, wr_user_id = uid, wr_word = w,
                          wr_translation = us_translation u, wr_example = us_fr u,
                          wr_created_at = t\<rparr>]) s'))"

text \<open>
  Here the call is awaited. An awaited value that is falsy or has no \<open>new_words\<close>
  (\<open>None\<close>) gives the empty list. Every exception inside the \<open>try\<close> becomes a 500.
\<close>

definition get_new_words_endpoint ::
  "(string \<Rightarrow> 's \<Rightarrow> (exn + 's call_result) \<times> 's) \<Rightarrow> ('s \<Rightarrow> nat \<times> 's) \<Rightarrow>
   string \<Rightarrow> user \<Rightarrow> 's \<Rightarrow> (exn + word_response list) \<times> 's" where
  "get_new_words_endpoint suggest_new_words_for_user now uid current_user s =
     (if user_id current_user \<noteq> uid
      then (Inl (HTTPException 403 ''Can only access your own new words''), s)
      else (case suggest_new_words_for_user uid s of
              (Inl e, s1) \<Rightarrow>
                (Inl (HTTPException 500 (''Failed to fetch new words: '' @ str_exn e)), s1)
            | (Inr obj, s1) \<Rightarrow>
                (case await obj s1 of
                   (Inl e, s2) \<Rightarrow>
                     (Inl (HTTPException 500 (''Failed to fetch new words: '' @ str_exn e)), s2)
                 | (Inr None, s2) \<Rightarrow> (Inr [], s2)
                 | (Inr (Some word_suggestion), s2) \<Rightarrow>
                     (case new_word_objs now uid (usages word_suggestion)
                             (new_words word_suggestion) [] s2 of
                        (objs, s3) \<Rightarrow> (Inr objs, s3)))))"

text \<open>
  Example collaborators over a state that counts clock readings: a dialogue turn that
  answers, an async suggestion function whose coroutine yields a fixed suggestion, one
  whose coroutine yields a suggestion without usage entries, one whose coroutine
  raises, and a plain function that raises when called.
\<close>

definition tick :: "nat \<Rightarrow> nat \<times> nat" where
  "tick n = (n, Suc n)"

definition turn_ok :: "string \<Rightarrow> string \<Rightarrow> nat \<Rightarrow> (exn + string) \<times> nat" where
  "turn_ok uid msg s = (Inr ''Bonjour !'', s)"

definition chat_usage :: usage where
  "chat_usage = \<lparr>us_translation = ''cat'', us_fr = ''Le chat dort.''\<rparr>"

definition lait_usage :: usage where
  "lait_usage = \<lparr>us_translation = ''milk'', us_fr = ''Le chat boit du lait.''\<rparr>"

definition sample_suggestion :: word_suggestion where
  "sample_suggestion =
     \<lparr>new_words = [''chat'', ''chien'', ''lait''],
      usages = [''chat'' \<mapsto> chat_usage, ''lait'' \<mapsto> lait_usage]\<rparr>"

definition bare_suggestion :: word_suggestion where
  "bare_suggestion = \<lparr>new_words = [''chat'', ''chien''], usages = Map.empty\<rparr>"

definition sample_body :: "nat \<Rightarrow> (exn + word_suggestion option) \<times> nat" where
  "sample_body s = (Inr (Some sample_suggestion), s)"

definition bare_body :: "nat \<Rightarrow> (exn + word_suggestion option) \<times> nat" where
  "bare_body s = (Inr (Some bare_suggestion), s)"

definition failing_body :: "nat \<Rightarrow> (exn + word_suggestion option) \<times> nat" where
  "failing_body s = (Inl (RuntimeError ''words_agent failed: timeout''), s)"

definition suggest_async :: "string \<Rightarrow> nat \<Rightarrow> (exn + nat call_result) \<times> nat" where
  "suggest_async uid s = (Inr (Coroutine sample_body), s)"

definition suggest_async_bare :: "string \<Rightarrow> nat \<Rightarrow> (exn + nat call_result) \<times> nat" where
  "suggest_async_bare uid s = (Inr (Coroutine bare_body), s)"

definition suggest_async_failing :: "string \<Rightarrow> nat \<Rightarrow> (exn + nat call_result) \<times> nat" where
  "suggest_async_failing uid s = (Inr (Coroutine failing_body), s)"

definition suggest_raising :: "string \<Rightarrow> nat \<Rightarrow> (exn + nat call_result) \<times> nat" where
  "suggest_raising uid s = (Inl (Exception ''database unavailable''), s)"

definition hello_alice :: dialogue_message where
  "hello_alice = \<lparr>dm_user_id = ''alice'', dm_message = ''Bonjour''\<rparr>"

section \<open>Word-suggestion service (services/llm_service.py)\<close>

text \<open>\<open>sep.join(xs)\<close>.\<close>

fun join :: "string \<Rightarrow> string list \<Rightarrow> string" where
  "join sep [] = []"
| "join sep [x] = x"
| "join sep (x # y # ys) = x @ sep @ join sep (y # ys)"

text \<open>
  The text of a list of strings, as both \<open>str(list)\<close> and \<open>json.dumps(list)\<close> lay it
  out: brackets around the elements, separated by a comma and a space. The rendering
  of one element (Python's \<open>repr\<close> of a string, or the JSON string literal with
  \<open>ensure_ascii=False\<close>) is the argument \<open>elem\<close>.
\<close>

definition list_text :: "(string \<Rightarrow> string) \<Rightarrow> string list \<Rightarrow> string" where
  "list_text elem xs = ''['' @ join '', '' (map elem xs) @ '']''"

text \<open>
  \<open>suggest_new_words\<close>. The agent runtime (\<open>words_agent.run\<close>, returning the text of
  \<open>result.output\<close>), \<open>json.loads\<close> and the validating constructor
  \<open>WordSuggestion(**parsed_output)\<close> are arguments; \<open>'s\<close> is the state of the agent
  runtime, so that each call of \<open>words_agent_run\<close> shows in the state returned. The
  whole body is inside one \<open>try\<close>, whose handler raises \<open>RuntimeError\<close>.
\<close>

definition suggest_new_words ::
  "(string \<Rightarrow> 's \<Rightarrow> (exn + string) \<times> 's) \<Rightarrow> (string \<Rightarrow> exn + 'j) \<Rightarrow>
   ('j \<Rightarrow> exn + word_suggestion) \<Rightarrow> (string \<Rightarrow> string) \<Rightarrow>
   string list \<Rightarrow> 's \<Rightarrow> (exn + word_suggestion) \<times> 's" where
  "suggest_new_words words_agent_run json_loads WordSuggestion repr known_words s =
     (case words_agent_run (''List of known words: '' @ list_text repr known_words) s of
        (Inl e, s') \<Rightarrow> (Inl (RuntimeError (''words_agent failed: '' @ str_exn e)), s')
      | (Inr output, s') \<Rightarrow>
          (case json_loads output of
             Inl e \<Rightarrow> (Inl (RuntimeError (''words_agent failed: '' @ str_exn e)), s')
           | Inr parsed_output \<Rightarrow>
               (case WordSuggestion parsed_output of
                  Inl e \<Rightarrow> (Inl (RuntimeError (''words_agent failed: '' @ str_exn e)), s')
                | Inr suggestion \<Rightarrow> (Inr suggestion, s'))))"

section \<open>Dialogue service (services/llm_service.py)\<close>

text \<open>
  A \<open>DialogueSession\<close>: the agent, absent until first use, and the message history.
  The registry maps a user id to that user's session object.
\<close>

record ('a, 'm) session =
  dialogue_agent :: "'a option"
  message_history :: "'m list"

type_synonym ('a, 'm) registry = "string \<rightharpoonup> ('a, 'm) session"

text \<open>
  Modelled from the spec: \<open>get_session\<close> of \<open>services.user_session_service\<close> is not
  among the sources. The spec gives it get-or-create semantics: the first access for a
  user id creates an empty session and registers it, a later access returns the
  registered one.
\<close>

text \<open>Modelled from the spec: the session that \<open>get_session\<close> creates on first access.\<close>

definition empty_session :: "('a, 'm) session" where
  "empty_session = \<lparr>dialogue_agent = None, message_history = []\<rparr>"

text \<open>Modelled from the spec: \<open>get_session(user_id)\<close>, get-or-create.\<close>

definition get_session ::
  "string \<Rightarrow> ('a, 'm) registry \<Rightarrow> ('a, 'm) session \<times> ('a, 'm) registry" where
  "get_session uid reg =
     (case reg uid of
        Some session \<Rightarrow> (session, reg)
      | None \<Rightarrow> (empty_session, reg(uid \<mapsto> empty_session)))"

text \<open>
  Lines 56 to 65 of \<open>get_dialogue_response\<close>: the session's agent, created first when
  the session has none (\<open>new_words'\<close> is the parameter \<open>new_words\<close>).
  \<open>prompt_format known new\<close> is
  \<open>DIALOGUE_AGENT_PROMPT.format(known_words=known, new_words=new)\<close> and
  \<open>create_dialogue_agent\<close> builds an agent from a prompt; \<open>'w\<close> is the state of the
  agent runtime. The assignment \<open>session.dialogue_agent = dialogue_agent\<close> changes the
  session object that the registry holds for the user.
\<close>

definition ensure_dialogue_agent ::
  "(string \<Rightarrow> string \<Rightarrow> exn + string) \<Rightarrow> (string \<Rightarrow> string) \<Rightarrow>
   (string \<Rightarrow> 'w \<Rightarrow> (exn + 'a) \<times> 'w) \<Rightarrow>
   string \<Rightarrow> string list \<Rightarrow> string list \<Rightarrow> ('a, 'm) registry \<times> 'w \<Rightarrow>
   (exn + 'a) \<times> ('a, 'm) registry \<times> 'w" where
  "ensure_dialogue_agent prompt_format json_str create_dialogue_agent uid known_words
       new_words' st =
     (case st of
        (reg, w) \<Rightarrow>
          (case get_session uid reg of
             (session, reg1) \<Rightarrow>
               (case dialogue_agent session of
                  Some agent \<Rightarrow> (Inr agent, reg1, w)
                | None \<Rightarrow>
                    (case prompt_format (list_text json_str known_words)
                            (list_text json_str new_words') of
                       Inl e \<Rightarrow> (Inl e, reg1, w)
                     | Inr updated_dialogue_agent_prompt \<Rightarrow>
                         (case create_dialogue_agent updated_dialogue_agent_prompt w of
                            (Inl e, w1) \<Rightarrow> (Inl e, reg1, w1)
                          | (Inr agent, w1) \<Rightarrow>
                              (Inr agent,
                               reg1(uid \<mapsto> session\<lparr>dialogue_agent := Some agent\<rparr>),
                               w1))))))"

text \<open>
  \<open>get_dialogue_response\<close>: \<open>agent_run agent prompt history\<close> is
  \<open>agent.run(user_prompt=prompt, message_history=history)\<close>, returning
  \<open>(result.output, result.all_messages())\<close>. Every exception of the body is raised
  again as \<open>RuntimeError\<close>.
\<close>

definition get_dialogue_response ::
  "(string \<Rightarrow> string \<Rightarrow> exn + string) \<Rightarrow> (string \<Rightarrow> string) \<Rightarrow>
   (string \<Rightarrow> 'w \<Rightarrow> (exn + 'a) \<times> 'w) \<Rightarrow>
   ('a \<Rightarrow> string \<Rightarrow> 'm list \<Rightarrow> 'w \<Rightarrow> (exn + string \<times> 'm list) \<times> 'w) \<Rightarrow>
   string \<Rightarrow> string list \<Rightarrow> string list \<Rightarrow> string \<Rightarrow> 'm list \<Rightarrow>
   ('a, 'm) registry \<times> 'w \<Rightarrow> (exn + string \<times> 'm list) \<times> ('a, 'm) registry \<times> 'w" where
  "get_dialogue_response prompt_format json_str create_dialogue_agent agent_run uid
       known_words new_words' student_response dialogue_history st =
     (case ensure_dialogue_agent prompt_format json_str create_dialogue_agent uid
             known_words new_words' st of
        (Inl e, reg, w) \<Rightarrow> (Inl (RuntimeError (''dialogue_agent failed: '' @ str_exn e)), reg, w)
      | (Inr agent, reg, w) \<Rightarrow>
          (case agent_run agent student_response dialogue_history w of
             (Inl e, w') \<Rightarrow>
               (Inl (RuntimeError (''dialogue_agent failed: '' @ str_exn e)), reg, w')
           | (Inr result, w') \<Rightarrow> (Inr result, reg, w')))"

text \<open>
  Example collaborators for the two services. The agent runtime's state counts the
  calls made to \<open>run\<close>. \<open>squote\<close> and \<open>quote\<close> render a word without special
  characters as Python's \<open>repr\<close> and as a JSON string. JSON values are kept as text,
  parsed by a table of two outputs; an agent is the prompt it was created with.
\<close>

definition quote :: "string \<Rightarrow> string" where
  "quote x = [CHR 0x22] @ x @ [CHR 0x22]"

definition squote :: "string \<Rightarrow> string" where
  "squote x = [CHR 0x27] @ x @ [CHR 0x27]"

definition agent_ok :: "string \<Rightarrow> nat \<Rightarrow> (exn + string) \<times> nat" where
  "agent_ok prompt n = (Inr ''good'', Suc n)"

definition agent_garbled :: "string \<Rightarrow> nat \<Rightarrow> (exn + string) \<times> nat" where
  "agent_garbled prompt n = (Inr ''not json at all'', Suc n)"

definition agent_misshapen :: "string \<Rightarrow> nat \<Rightarrow> (exn + string) \<times> nat" where
  "agent_misshapen prompt n = (Inr ''wrong shape'', Suc n)"

definition agent_down :: "string \<Rightarrow> nat \<Rightarrow> (exn + string) \<times> nat" where
  "agent_down prompt n = (Inl (Exception ''connection refused''), Suc n)"

definition loads_table :: "string \<Rightarrow> exn + string" where
  "loads_table txt =
     (if txt = ''good'' \<or> txt = ''wrong shape'' then Inr txt
      else Inl (Exception ''Expecting value: line 1 column 1 (char 0)''))"

definition validate_table :: "string \<Rightarrow> exn + word_suggestion" where
  "validate_table j =
     (if j = ''good'' then Inr sample_suggestion
      else Inl (Exception ''1 validation error for WordSuggestion''))"

definition template :: "string \<Rightarrow> string \<Rightarrow> exn + string" where
  "template known new = Inr (''Known: '' @ known @ '' New: '' @ new)"

definition template_broken :: "string \<Rightarrow> string \<Rightarrow> exn + string" where
  "template_broken known new = Inl (Exception ''unknown placeholder'')"

definition create_ok :: "string \<Rightarrow> nat \<Rightarrow> (exn + string) \<times> nat" where
  "create_ok prompt n = (Inr prompt, n)"

definition create_failing :: "string \<Rightarrow> nat \<Rightarrow> (exn + string) \<times> nat" where
  "create_failing prompt n = (Inl (Exception ''no API key''), n)"

definition run_echo ::
  "string \<Rightarrow> string \<Rightarrow> string list \<Rightarrow> nat \<Rightarrow> (exn + string \<times> string list) \<times> nat" where
  "run_echo agent prompt history n = (Inr (''Oui.'', history @ [prompt, ''Oui.'']), Suc n)"

definition run_down ::
  "string \<Rightarrow> string \<Rightarrow> string list \<Rightarrow> nat \<Rightarrow> (exn + string \<times> string list) \<times> nat" where
  "run_down agent prompt history n = (Inl (Exception ''rate limited''), Suc n)"

definition alice_session :: "(string, string) session" where
  "alice_session = \<lparr>dialogue_agent = Some ''first prompt'', message_history = []\<rparr>"

definition alice_registry :: "(string, string) registry" where
  "alice_registry = [''alice'' \<mapsto> alice_session]"

section \<open>Properties of the word endpoints\<close>

lemma find_None_no_id: "find (\<lambda>w. wr_id w = i) ws = None \<longleftrightarrow> i \<notin> wr_id ` set ws"
  by (auto simp: find_None_iff)

text \<open>
  Whatever the caller's identity, the store that \<open>update_word_endpoint\<close> leaves behind
  is the one \<open>update_word\<close> produced: the ownership comparison comes after the store
  call and undoes nothing.
\<close>

lemma update_word_endpoint_store:
  "snd (update_word_endpoint update_word word_id updates current_user s)
     = snd (update_word word_id updates s)"
  by (simp add: update_word_endpoint_def split: prod.splits sum.splits option.splits)

text \<open>
  Claim C1, as amended. Let the authenticated identity \<open>a\<close> differ from the user \<open>b\<close>.
  Reading \<open>b\<close>'s word list and creating a word whose \<open>user_id\<close> is \<open>b\<close> raise HTTP 403
  before any store call; updating a word that the store returns as owned by \<open>b\<close>
  raises HTTP 403; deleting a word id that is not among the words the store lists for
  \<open>a\<close> raises HTTP 404, since the delete endpoint searches the caller's own words only
  and has no 403 branch.
\<close>

theorem cross_user_statuses:
  assumes "user_id a \<noteq> b"
  shows "get_user_words_endpoint get_user_words b a s
           = (Inl (HTTPException 403 ''Can only access your own words''), s)
       \<and> (wc_user_id word = b \<longrightarrow>
            create_word_endpoint create_word word a s
              = (Inl (HTTPException 403 ''Can only create words for yourself''), s))
       \<and> (update_word word_id updates s = (Inr (Some w), s1) \<and> wr_user_id w = b \<longrightarrow>
            fst (update_word_endpoint update_word word_id updates a s)
              = Inl (HTTPException 403 ''Can only update your own words''))
       \<and> (get_user_words (user_id a) s = (Inr ws, s2) \<and> word_id \<notin> wr_id ` set ws \<longrightarrow>
            delete_word_endpoint get_user_words delete_word word_id a s
              = (Inl (HTTPException 404 ''Word not found''), s2))"
  using assms
  by (auto simp: get_user_words_endpoint_def create_word_endpoint_def
      update_word_endpoint_def delete_word_endpoint_def find_None_no_id [symmetric])

theorem cross_user_statuses_witness:
  "user_id alice \<noteq> ''bob''
   \<and> get_user_words_endpoint mem_get_user_words ''bob'' alice bobs_store
       = (Inl (HTTPException 403 ''Can only access your own words''), bobs_store)
   \<and> wc_user_id word_for_bob = ''bob''
   \<and> create_word_endpoint mem_create_word word_for_bob alice bobs_store
       = (Inl (HTTPException 403 ''Can only create words for yourself''), bobs_store)
   \<and> mem_update_word ''w0'' new_translation bobs_store
       = (Inr (Some (apply_update new_translation bobs_word)),
          bobs_store\<lparr>words := [apply_update new_translation bobs_word]\<rparr>)
   \<and> wr_user_id (apply_update new_translation bobs_word) = ''bob''
   \<and> fst (update_word_endpoint mem_update_word ''w0'' new_translation alice bobs_store)
       = Inl (HTTPException 403 ''Can only update your own words'')
   \<and> mem_get_user_words (user_id alice) bobs_store = (Inr [], bobs_store)
   \<and> ''w0'' \<notin> wr_id ` set []
   \<and> delete_word_endpoint mem_get_user_words mem_delete_word ''w0'' alice bobs_store
       = (Inl (HTTPException 404 ''Word not found''), bobs_store)"
proof -
  have differ: "user_id alice \<noteq> ''bob''"
    by (simp add: alice_def)
  have target: "wc_user_id word_for_bob = ''bob''"
    by (simp add: word_for_bob_def)
  have upd: "mem_update_word ''w0'' new_translation bobs_store
       = (Inr (Some (apply_update new_translation bobs_word)),
          bobs_store\<lparr>words := [apply_update new_translation bobs_word]\<rparr>)"
    by (simp add: mem_update_word_def bobs_store_def bobs_word_def)
  have owner: "wr_user_id (apply_update new_translation bobs_word) = ''bob''"
    by (simp add: apply_update_def bobs_word_def)
  have lookup: "mem_get_user_words (user_id alice) bobs_store = (Inr [], bobs_store)"
    by (simp add: mem_get_user_words_def alice_def bobs_store_def bobs_word_def)
  have missing: "''w0'' \<notin> wr_id ` set []"
    by simp
  from differ target upd owner lookup missing
    cross_user_statuses [where a = alice and b = "''bob''"
      and get_user_words = mem_get_user_words and s = bobs_store
      and word = word_for_bob and create_word = mem_create_word
      and update_word = mem_update_word and word_id = "''w0''" and updates = new_translation
      and w = "apply_update new_translation bobs_word"
      and ?s1.0 = "bobs_store\<lparr>words := [apply_update new_translation bobs_word]\<rparr>"
      and ws = "[]" and ?s2.0 = bobs_store and delete_word = mem_delete_word, OF differ]
  show ?thesis by simp
qed

text \<open>
  Claim C1 as it is written fails for the delete endpoint: Alice's DELETE of the word
  that Bob owns is answered with 404, not 403.
\<close>

theorem delete_foreign_is_404_not_403:
  "user_id alice \<noteq> wr_user_id bobs_word
   \<and> bobs_word \<in> set (words bobs_store)
   \<and> delete_word_endpoint mem_get_user_words mem_delete_word (wr_id bobs_word) alice bobs_store
       = (Inl (HTTPException 404 ''Word not found''), bobs_store)
   \<and> status_of (fst (delete_word_endpoint mem_get_user_words mem_delete_word
                        (wr_id bobs_word) alice bobs_store)) \<noteq> 403"
  by (simp add: delete_word_endpoint_def mem_get_user_words_def alice_def bobs_store_def
      bobs_word_def)

text \<open>
  Claim C2 asks that a PUT on a word owned by someone else leave that word unmodified
  while returning the ownership error. With the in-memory store, Alice's PUT on Bob's
  word is answered with 403, and the store she leaves behind holds Bob's word with the
  new translation: the update ran before the ownership comparison.
\<close>

theorem update_foreign_mutates_store:
  "wr_user_id bobs_word \<noteq> user_id alice
   \<and> words bobs_store = [bobs_word]
   \<and> fst (update_word_endpoint mem_update_word ''w0'' new_translation alice bobs_store)
       = Inl (HTTPException 403 ''Can only update your own words'')
   \<and> words (snd (update_word_endpoint mem_update_word ''w0'' new_translation alice bobs_store))
       = [bobs_word\<lparr>wr_translation := ''dog''\<rparr>]
   \<and> snd (update_word_endpoint mem_update_word ''w0'' new_translation alice bobs_store)
       \<noteq> bobs_store"
  by (simp add: update_word_endpoint_def mem_update_word_def apply_update_def alice_def
      bobs_store_def bobs_word_def new_translation_def)

text \<open>
  Claim C5. A DELETE of a word id that is not among the words the store returns for the
  caller, the lookup itself succeeding, raises HTTP 404 (never 500), and the store is
  left as the lookup left it: \<open>delete_word\<close> is not called.
\<close>

theorem delete_missing_is_404:
  assumes "get_user_words (user_id current_user) s = (Inr ws, s')"
    and "word_id \<notin> wr_id ` set ws"
  shows "delete_word_endpoint get_user_words delete_word word_id current_user s
           = (Inl (HTTPException 404 ''Word not found''), s')
         \<and> status_of (fst (delete_word_endpoint get_user_words delete_word word_id
                              current_user s)) = 404"
  using assms by (simp add: delete_word_endpoint_def find_None_no_id [symmetric])

text \<open>Bob deletes his word, then deletes the same id again: the second answer is 404.\<close>

theorem delete_missing_is_404_witness:
  "delete_word_endpoint mem_get_user_words mem_delete_word ''w0'' bob bobs_store
     = (Inr ''Word deleted successfully'', emptied_store)
   \<and> mem_get_user_words (user_id bob) emptied_store = (Inr [], emptied_store)
   \<and> ''w0'' \<notin> wr_id ` set []
   \<and> delete_word_endpoint mem_get_user_words mem_delete_word ''w0'' bob emptied_store
       = (Inl (HTTPException 404 ''Word not found''), emptied_store)
   \<and> status_of (fst (delete_word_endpoint mem_get_user_words mem_delete_word ''w0'' bob
                        emptied_store)) = 404"
proof -
  have first: "delete_word_endpoint mem_get_user_words mem_delete_word ''w0'' bob bobs_store
     = (Inr ''Word deleted successfully'', emptied_store)"
    by (simp add: delete_word_endpoint_def mem_get_user_words_def mem_delete_word_def
        bob_def bobs_store_def bobs_word_def emptied_store_def)
  have lookup: "mem_get_user_words (user_id bob) emptied_store = (Inr [], emptied_store)"
    by (simp add: mem_get_user_words_def emptied_store_def)
  have missing: "''w0'' \<notin> wr_id ` set []"
    by simp
  from first lookup missing
    delete_missing_is_404 [where get_user_words = mem_get_user_words and current_user = bob
      and s = emptied_store and delete_word = mem_delete_word, OF lookup missing]
  show ?thesis by simp
qed

text \<open>
  Claim C6. A PUT for which the store finds the word and returns it with a \<open>user_id\<close>
  other than the caller's raises HTTP 403, not 404 and not 500.
\<close>

theorem update_foreign_is_403:
  assumes "update_word word_id updates s = (Inr (Some w), s')"
    and "wr_user_id w \<noteq> user_id current_user"
  shows "update_word_endpoint update_word word_id updates current_user s
           = (Inl (HTTPException 403 ''Can only update your own words''), s')
         \<and> status_of (fst (update_word_endpoint update_word word_id updates current_user s))
           = 403"
  using assms by (simp add: update_word_endpoint_def)

theorem update_foreign_is_403_witness:
  "mem_update_word ''w0'' new_translation bobs_store
     = (Inr (Some (apply_update new_translation bobs_word)),
        bobs_store\<lparr>words := [apply_update new_translation bobs_word]\<rparr>)
   \<and> wr_user_id (apply_update new_translation bobs_word) \<noteq> user_id alice
   \<and> status_of (fst (update_word_endpoint mem_update_word ''w0'' new_translation alice
                        bobs_store)) = 403"
proof -
  have upd: "mem_update_word ''w0'' new_translation bobs_store
     = (Inr (Some (apply_update new_translation bobs_word)),
        bobs_store\<lparr>words := [apply_update new_translation bobs_word]\<rparr>)"
    by (simp add: mem_update_word_def bobs_store_def bobs_word_def)
  have other: "wr_user_id (apply_update new_translation bobs_word) \<noteq> user_id alice"
    by (simp add: apply_update_def bobs_word_def alice_def)
  from upd other
    update_foreign_is_403 [where update_word = mem_update_word and current_user = alice,
      OF upd other]
  show ?thesis by simp
qed

section \<open>Properties of the dialogue and suggestion endpoints\<close>

text \<open>
  The loop keeps, from each appended entry, the id, the owner, the word, the
  translation and the example; they are those of the words that have a usage entry,
  in the order of \<open>new_words\<close>.
\<close>

lemma new_word_objs_fields:
  "map (\<lambda>r. (wr_id r, wr_user_id r, wr_word r, wr_translation r, wr_example r))
       (fst (new_word_objs now uid us ws acc s))
   = map (\<lambda>r. (wr_id r, wr_user_id r, wr_word r, wr_translation r, wr_example r)) acc
     @ map (\<lambda>w. (''new_'' @ w, uid, w, us_translation (the (us w)), us_fr (the (us w))))
         (filter (\<lambda>w. us w \<noteq> None) ws)"
proof (induction ws arbitrary: acc s)
  case Nil
  show ?case by simp
next
  case (Cons w ws)
  show ?case
  proof (cases "us w")
    case None
    with Cons show ?thesis by simp
  next
    case (Some u)
    obtain t s' where "now s = (t, s')" by (cases "now s")
    with Some Cons show ?thesis by simp
  qed
qed

text \<open>The words of the appended entries are exactly the words that have a usage entry.\<close>

lemma new_word_objs_words:
  "map wr_word (fst (new_word_objs now uid us ws acc s))
   = map wr_word acc @ filter (\<lambda>w. us w \<noteq> None) ws"
proof (induction ws arbitrary: acc s)
  case Nil
  show ?case by simp
next
  case (Cons w ws)
  show ?case
  proof (cases "us w")
    case None
    with Cons show ?thesis by simp
  next
    case (Some u)
    obtain t s' where "now s = (t, s')" by (cases "now s")
    with Some Cons show ?thesis by simp
  qed
qed

lemma get_new_words_endpoint_Some:
  assumes "user_id current_user = uid"
    and "suggest uid s = (Inr obj, s1)"
    and "await obj s1 = (Inr (Some sg), s2)"
  shows "fst (get_new_words_endpoint suggest now uid current_user s)
         = Inr (fst (new_word_objs now uid (usages sg) (new_words sg) [] s2))"
  using assms by (simp add: get_new_words_endpoint_def split: prod.splits)

text \<open>
  Claim C3. When the authenticated identity matches the body's \<open>user_id\<close> and the
  dialogue turn succeeds with the reply \<open>r\<close>, \<open>chat_with_ai\<close> returns a
  \<open>DialogueResponse\<close> whose response is \<open>r\<close>; and when the suggestion sub-call fails,
  whether the call itself raises or reading \<open>new_words\<close> from its result raises, the
  response is still returned, with the empty list as \<open>suggested_words\<close>.
\<close>

theorem chat_with_ai_best_effort:
  assumes "user_id current_user = dm_user_id message"
    and "run_dialogue_turn (dm_user_id message) (dm_message message) s = (Inr r, s1)"
  shows "\<exists>d. fst (chat_with_ai run_dialogue_turn suggest message current_user s) = Inr d
           \<and> response d = r
           \<and> ((\<exists>e. fst (suggest (dm_user_id message) s1) = Inl e) \<longrightarrow> suggested_words d = [])
           \<and> ((\<exists>obj e. fst (suggest (dm_user_id message) s1) = Inr obj
                       \<and> getattr_new_words obj = Inl e) \<longrightarrow> suggested_words d = [])"
  using assms
  by (cases "suggest (dm_user_id message) s1")
     (auto simp: chat_with_ai_def split: sum.splits)

theorem chat_with_ai_best_effort_witness:
  "user_id alice = dm_user_id hello_alice
   \<and> turn_ok (dm_user_id hello_alice) (dm_message hello_alice) 0 = (Inr ''Bonjour !'', 0)
   \<and> fst (suggest_raising (dm_user_id hello_alice) 0) = Inl (Exception ''database unavailable'')
   \<and> fst (chat_with_ai turn_ok suggest_raising hello_alice alice 0)
       = Inr \<lparr>response = ''Bonjour !'', suggested_words = []\<rparr>"
proof -
  have who: "user_id alice = dm_user_id hello_alice"
    by (simp add: alice_def hello_alice_def)
  have turn: "turn_ok (dm_user_id hello_alice) (dm_message hello_alice) 0 = (Inr ''Bonjour !'', 0)"
    by (simp add: turn_ok_def)
  have fails: "fst (suggest_raising (dm_user_id hello_alice) 0)
                 = Inl (Exception ''database unavailable'')"
    by (simp add: suggest_raising_def)
  from chat_with_ai_best_effort [where run_dialogue_turn = turn_ok and suggest = suggest_raising,
      OF who turn] fails
  obtain d where "fst (chat_with_ai turn_ok suggest_raising hello_alice alice 0) = Inr d"
    and "response d = ''Bonjour !''" and "suggested_words d = []"
    by auto
  then have "fst (chat_with_ai turn_ok suggest_raising hello_alice alice 0)
       = Inr \<lparr>response = ''Bonjour !'', suggested_words = []\<rparr>"
    by (cases d) simp
  with who turn fails show ?thesis by simp
qed

text \<open>
  Claim C4. Let \<open>suggest_new_words_for_user\<close> be an \<open>async def\<close> function, as
  \<open>get_new_words_endpoint\<close> treats it. Then every \<open>chat_with_ai\<close> call that returns has
  the empty list as \<open>suggested_words\<close>: the call is not awaited, reading \<open>new_words\<close>
  from the coroutine object raises, and the fallback runs. The coroutine body never
  runs: the state left behind is the one the dialogue turn left.
\<close>

theorem chat_with_ai_never_suggests:
  assumes "async_def suggest"
    and "chat_with_ai run_dialogue_turn suggest message current_user s = (Inr d, s')"
  shows "suggested_words d = []
         \<and> s' = snd (run_dialogue_turn (dm_user_id message) (dm_message message) s)"
proof -
  obtain res s1 where turn:
    "run_dialogue_turn (dm_user_id message) (dm_message message) s = (res, s1)"
    by (cases "run_dialogue_turn (dm_user_id message) (dm_message message) s")
  from assms(1) obtain body where
    call: "suggest (dm_user_id message) s1 = (Inr (Coroutine body), s1)"
    unfolding async_def_def by blast
  from assms(2) turn call show ?thesis
    by (auto simp: chat_with_ai_def split: if_splits sum.splits)
qed

text \<open>The coroutine of \<open>suggest_async\<close> would yield three new words; none is delivered.\<close>

theorem chat_with_ai_never_suggests_witness:
  "async_def suggest_async
   \<and> await (Coroutine sample_body) 0 = (Inr (Some sample_suggestion), 0)
   \<and> new_words sample_suggestion = [''chat'', ''chien'', ''lait'']
   \<and> chat_with_ai turn_ok suggest_async hello_alice alice 0
       = (Inr \<lparr>response = ''Bonjour !'', suggested_words = []\<rparr>, 0)
   \<and> suggested_words \<lparr>response = ''Bonjour !'', suggested_words = []\<rparr> = []
   \<and> (0::nat) = snd (turn_ok (dm_user_id hello_alice) (dm_message hello_alice) 0)"
proof -
  have a: "async_def suggest_async"
    by (simp add: async_def_def suggest_async_def)
  have body: "await (Coroutine sample_body) 0 = (Inr (Some sample_suggestion), 0)
     \<and> new_words sample_suggestion = [''chat'', ''chien'', ''lait'']"
    by (simp add: sample_body_def sample_suggestion_def)
  have run: "chat_with_ai turn_ok suggest_async hello_alice alice 0
       = (Inr \<lparr>response = ''Bonjour !'', suggested_words = []\<rparr>, 0)"
    by (simp add: chat_with_ai_def turn_ok_def suggest_async_def hello_alice_def alice_def)
  from a body run chat_with_ai_never_suggests [OF a run] show ?thesis by simp
qed

text \<open>
  Claim C7. For the matching user, when the awaited suggestion service returns a
  suggestion, \<open>get_new_words_endpoint\<close> returns a list (a success, not an error). Its
  entries are, word for word and in order, the suggested words that have a usage entry:
  a word without one is skipped and raises nothing, a word with one gives exactly one
  entry. So the list has at most one entry per suggested word, and it is empty when no
  suggested word has a usage entry.
\<close>

theorem new_words_skips_missing_usages:
  assumes "user_id current_user = uid"
    and "suggest uid s = (Inr obj, s1)"
    and "await obj s1 = (Inr (Some sg), s2)"
  shows "\<exists>objs. fst (get_new_words_endpoint suggest now uid current_user s) = Inr objs
           \<and> map wr_word objs = filter (\<lambda>w. usages sg w \<noteq> None) (new_words sg)
           \<and> length objs \<le> length (new_words sg)
           \<and> ((\<forall>w \<in> set (new_words sg). usages sg w = None) \<longrightarrow> objs = [])"
proof -
  let ?objs = "fst (new_word_objs now uid (usages sg) (new_words sg) [] s2)"
  have kept: "map wr_word ?objs = filter (\<lambda>w. usages sg w \<noteq> None) (new_words sg)"
    by (simp add: new_word_objs_words)
  have len: "length ?objs = length (filter (\<lambda>w. usages sg w \<noteq> None) (new_words sg))"
    using arg_cong [OF kept, of length] by simp
  have "length ?objs \<le> length (new_words sg)"
    unfolding len by (rule length_filter_le)
  moreover have "(\<forall>w \<in> set (new_words sg). usages sg w = None) \<longrightarrow> ?objs = []"
  proof
    assume "\<forall>w \<in> set (new_words sg). usages sg w = None"
    then have "filter (\<lambda>w. usages sg w \<noteq> None) (new_words sg) = []"
      by (simp add: filter_empty_conv)
    with len show "?objs = []" by simp
  qed
  ultimately show ?thesis
    using kept get_new_words_endpoint_Some [where suggest = suggest and now = now, OF assms]
    by simp
qed

text \<open>
  Two runs: a suggestion in which no word has a usage entry gives the empty list, and
  one in which \<open>chien\<close> alone lacks its entry gives the entries of the other two words.
\<close>

theorem new_words_skips_missing_usages_witness:
  "user_id alice = ''alice''
   \<and> suggest_async_bare ''alice'' 0 = (Inr (Coroutine bare_body), 0)
   \<and> await (Coroutine bare_body) 0 = (Inr (Some bare_suggestion), 0)
   \<and> new_words bare_suggestion = [''chat'', ''chien'']
   \<and> usages bare_suggestion ''chat'' = None
   \<and> usages bare_suggestion ''chien'' = None
   \<and> fst (get_new_words_endpoint suggest_async_bare tick ''alice'' alice 0) = Inr []
   \<and> status_of (fst (get_new_words_endpoint suggest_async_bare tick ''alice'' alice 0)) = 200
   \<and> suggest_async ''alice'' 0 = (Inr (Coroutine sample_body), 0)
   \<and> await (Coroutine sample_body) 0 = (Inr (Some sample_suggestion), 0)
   \<and> new_words sample_suggestion = [''chat'', ''chien'', ''lait'']
   \<and> usages sample_suggestion ''chat'' = Some chat_usage
   \<and> usages sample_suggestion ''chien'' = None
   \<and> usages sample_suggestion ''lait'' = Some lait_usage
   \<and> map wr_word (projr (fst (get_new_words_endpoint suggest_async tick ''alice'' alice 0)))
       = [''chat'', ''lait'']
   \<and> status_of (fst (get_new_words_endpoint suggest_async tick ''alice'' alice 0)) = 200"
proof -
  have who: "user_id alice = ''alice''" by (simp add: alice_def)
  have call: "suggest_async_bare ''alice'' 0 = (Inr (Coroutine bare_body), 0)"
    by (simp add: suggest_async_bare_def)
  have awaited: "await (Coroutine bare_body) 0 = (Inr (Some bare_suggestion), 0)"
    by (simp add: bare_body_def)
  have bare: "new_words bare_suggestion = [''chat'', ''chien'']
      \<and> usages bare_suggestion ''chat'' = None \<and> usages bare_suggestion ''chien'' = None"
    by (simp add: bare_suggestion_def)
  from new_words_skips_missing_usages [where suggest = suggest_async_bare and now = tick,
      OF who call awaited] bare
  have empty: "fst (get_new_words_endpoint suggest_async_bare tick ''alice'' alice 0) = Inr []"
    by auto
  have call2: "suggest_async ''alice'' 0 = (Inr (Coroutine sample_body), 0)"
    by (simp add: suggest_async_def)
  have awaited2: "await (Coroutine sample_body) 0 = (Inr (Some sample_suggestion), 0)"
    by (simp add: sample_body_def)
  have sample: "new_words sample_suggestion = [''chat'', ''chien'', ''lait'']
      \<and> usages sample_suggestion ''chat'' = Some chat_usage
      \<and> usages sample_suggestion ''chien'' = None
      \<and> usages sample_suggestion ''lait'' = Some lait_usage"
    by (simp add: sample_suggestion_def)
  from new_words_skips_missing_usages [where suggest = suggest_async and now = tick,
      OF who call2 awaited2]
  obtain objs where res: "fst (get_new_words_endpoint suggest_async tick ''alice'' alice 0) = Inr objs"
    and "map wr_word objs
         = filter (\<lambda>w. usages sample_suggestion w \<noteq> None) (new_words sample_suggestion)"
    by blast
  with sample have mixed:
    "map wr_word (projr (fst (get_new_words_endpoint suggest_async tick ''alice'' alice 0)))
       = [''chat'', ''lait'']
     \<and> status_of (fst (get_new_words_endpoint suggest_async tick ''alice'' alice 0)) = 200"
    by simp
  from who call awaited bare empty call2 awaited2 sample mixed show ?thesis by simp
qed

text \<open>
  Claim C8. For the matching user, when the awaited suggestion service returns a
  suggestion, the entries that \<open>get_new_words_endpoint\<close> returns are, in the order of
  \<open>new_words\<close>, one per word that has a usage entry: the id is \<open>new_\<close> followed by the
  word, the \<open>user_id\<close> is the path's, the translation and the example are the usage
  entry's translation and French sentence.
\<close>

theorem new_words_entries:
  assumes "user_id current_user = uid"
    and "suggest uid s = (Inr obj, s1)"
    and "await obj s1 = (Inr (Some sg), s2)"
  shows "\<exists>objs. fst (get_new_words_endpoint suggest now uid current_user s) = Inr objs
           \<and> map (\<lambda>r. (wr_id r, wr_user_id r, wr_word r, wr_translation r, wr_example r)) objs
             = map (\<lambda>w. (''new_'' @ w, uid, w, us_translation (the (usages sg w)),
                          us_fr (the (usages sg w))))
                 (filter (\<lambda>w. usages sg w \<noteq> None) (new_words sg))"
  using get_new_words_endpoint_Some [where suggest = suggest and now = now, OF assms]
    new_word_objs_fields [of now uid "usages sg" "new_words sg" "[]" s2]
  by simp

theorem new_words_entries_witness:
  "user_id alice = ''alice''
   \<and> suggest_async ''alice'' 0 = (Inr (Coroutine sample_body), 0)
   \<and> await (Coroutine sample_body) 0 = (Inr (Some sample_suggestion), 0)
   \<and> map (\<lambda>r. (wr_id r, wr_user_id r, wr_word r, wr_translation r, wr_example r))
       (projr (fst (get_new_words_endpoint suggest_async tick ''alice'' alice 0)))
     = [(''new_chat'', ''alice'', ''chat'', ''cat'', ''Le chat dort.''),
        (''new_lait'', ''alice'', ''lait'', ''milk'', ''Le chat boit du lait.'')]"
proof -
  have who: "user_id alice = ''alice''" by (simp add: alice_def)
  have call: "suggest_async ''alice'' 0 = (Inr (Coroutine sample_body), 0)"
    by (simp add: suggest_async_def)
  have awaited: "await (Coroutine sample_body) 0 = (Inr (Some sample_suggestion), 0)"
    by (simp add: sample_body_def)
  from new_words_entries [where suggest = suggest_async and now = tick,
      OF who call awaited]
  obtain objs where "fst (get_new_words_endpoint suggest_async tick ''alice'' alice 0) = Inr objs"
    and "map (\<lambda>r. (wr_id r, wr_user_id r, wr_word r, wr_translation r, wr_example r)) objs
         = map (\<lambda>w. (''new_'' @ w, ''alice'', w, us_translation (the (usages sample_suggestion w)),
                      us_fr (the (usages sample_suggestion w))))
             (filter (\<lambda>w. usages sample_suggestion w \<noteq> None) (new_words sample_suggestion))"
    by blast
  then have "map (\<lambda>r. (wr_id r, wr_user_id r, wr_word r, wr_translation r, wr_example r))
       (projr (fst (get_new_words_endpoint suggest_async tick ''alice'' alice 0)))
     = [(''new_chat'', ''alice'', ''chat'', ''cat'', ''Le chat dort.''),
        (''new_lait'', ''alice'', ''lait'', ''milk'', ''Le chat boit du lait.'')]"
    by (simp add: sample_suggestion_def chat_usage_def lait_usage_def)
  with who call awaited show ?thesis by simp
qed

section \<open>Properties of the word-suggestion service\<close>

text \<open>
  Claim C9. For every list of known words, \<open>suggest_new_words\<close> calls the agent once
  (the runtime state it leaves is the state after that one call, whatever the outcome).
  When the call raises, when \<open>json.loads\<close> raises on the output, or when the
  \<open>WordSuggestion\<close> constructor rejects the parsed value, it raises \<open>RuntimeError\<close>
  with the text of the cause and returns nothing; when all three succeed it returns
  the constructed \<open>WordSuggestion\<close>.
\<close>

theorem suggest_new_words_outcomes:
  "snd (suggest_new_words run loads validate repr known_words s)
     = snd (run (''List of known words: '' @ list_text repr known_words) s)
   \<and> (fst (run (''List of known words: '' @ list_text repr known_words) s) = Inl e \<longrightarrow>
        fst (suggest_new_words run loads validate repr known_words s)
          = Inl (RuntimeError (''words_agent failed: '' @ str_exn e)))
   \<and> (fst (run (''List of known words: '' @ list_text repr known_words) s) = Inr out
        \<and> loads out = Inl e \<longrightarrow>
        fst (suggest_new_words run loads validate repr known_words s)
          = Inl (RuntimeError (''words_agent failed: '' @ str_exn e)))
   \<and> (fst (run (''List of known words: '' @ list_text repr known_words) s) = Inr out
        \<and> loads out = Inr j \<and> validate j = Inl e \<longrightarrow>
        fst (suggest_new_words run loads validate repr known_words s)
          = Inl (RuntimeError (''words_agent failed: '' @ str_exn e)))
   \<and> (fst (run (''List of known words: '' @ list_text repr known_words) s) = Inr out
        \<and> loads out = Inr j \<and> validate j = Inr sg \<longrightarrow>
        fst (suggest_new_words run loads validate repr known_words s) = Inr sg)"
  by (cases "run (''List of known words: '' @ list_text repr known_words) s")
     (auto simp: suggest_new_words_def split: sum.splits)

theorem suggest_new_words_outcomes_witness:
  "fst (agent_down (''List of known words: '' @ list_text squote [''chat'']) 0)
     = Inl (Exception ''connection refused'')
   \<and> suggest_new_words agent_down loads_table validate_table squote [''chat''] 0
       = (Inl (RuntimeError ''words_agent failed: connection refused''), 1)
   \<and> fst (agent_garbled (''List of known words: '' @ list_text squote [''chat'']) 0)
       = Inr ''not json at all''
   \<and> loads_table ''not json at all'' = Inl (Exception ''Expecting value: line 1 column 1 (char 0)'')
   \<and> suggest_new_words agent_garbled loads_table validate_table squote [''chat''] 0
       = (Inl (RuntimeError
               ''words_agent failed: Expecting value: line 1 column 1 (char 0)''), 1)
   \<and> fst (agent_misshapen (''List of known words: '' @ list_text squote [''chat'']) 0)
       = Inr ''wrong shape''
   \<and> loads_table ''wrong shape'' = Inr ''wrong shape''
   \<and> validate_table ''wrong shape'' = Inl (Exception ''1 validation error for WordSuggestion'')
   \<and> suggest_new_words agent_misshapen loads_table validate_table squote [''chat''] 0
       = (Inl (RuntimeError ''words_agent failed: 1 validation error for WordSuggestion''), 1)
   \<and> fst (agent_ok (''List of known words: '' @ list_text squote [''chat'']) 0) = Inr ''good''
   \<and> loads_table ''good'' = Inr ''good''
   \<and> validate_table ''good'' = Inr sample_suggestion
   \<and> suggest_new_words agent_ok loads_table validate_table squote [''chat''] 0
       = (Inr sample_suggestion, 1)"
proof -
  have down: "fst (agent_down (''List of known words: '' @ list_text squote [''chat'']) 0)
     = Inl (Exception ''connection refused'')"
    and down_state: "snd (agent_down (''List of known words: '' @ list_text squote [''chat'']) 0) = 1"
    by (simp_all add: agent_down_def)
  have garbled: "fst (agent_garbled (''List of known words: '' @ list_text squote [''chat'']) 0)
       = Inr ''not json at all''"
    and garbled_state:
      "snd (agent_garbled (''List of known words: '' @ list_text squote [''chat'']) 0) = 1"
    by (simp_all add: agent_garbled_def)
  have misshapen: "fst (agent_misshapen (''List of known words: '' @ list_text squote [''chat'']) 0)
       = Inr ''wrong shape''"
    and misshapen_state:
      "snd (agent_misshapen (''List of known words: '' @ list_text squote [''chat'']) 0) = 1"
    by (simp_all add: agent_misshapen_def)
  have ok: "fst (agent_ok (''List of known words: '' @ list_text squote [''chat'']) 0) = Inr ''good''"
    and ok_state: "snd (agent_ok (''List of known words: '' @ list_text squote [''chat'']) 0) = 1"
    by (simp_all add: agent_ok_def)
  have l1: "loads_table ''not json at all'' = Inl (Exception ''Expecting value: line 1 column 1 (char 0)'')"
    and l2: "loads_table ''wrong shape'' = Inr ''wrong shape''"
    and l3: "loads_table ''good'' = Inr ''good''"
    by (simp_all add: loads_table_def)
  have v2: "validate_table ''wrong shape'' = Inl (Exception ''1 validation error for WordSuggestion'')"
    and v3: "validate_table ''good'' = Inr sample_suggestion"
    by (simp_all add: validate_table_def)
  have r1: "suggest_new_words agent_down loads_table validate_table squote [''chat''] 0
       = (Inl (RuntimeError ''words_agent failed: connection refused''), 1)"
    using suggest_new_words_outcomes [where run = agent_down and loads = loads_table
        and validate = validate_table and repr = squote and known_words = "[''chat'']" and s = 0
        and e = "Exception ''connection refused''"]
      down down_state
    by (simp add: prod_eq_iff)
  have r2: "suggest_new_words agent_garbled loads_table validate_table squote [''chat''] 0
       = (Inl (RuntimeError
               ''words_agent failed: Expecting value: line 1 column 1 (char 0)''), 1)"
    using suggest_new_words_outcomes [where run = agent_garbled and loads = loads_table
        and validate = validate_table and repr = squote and known_words = "[''chat'']" and s = 0
        and out = "''not json at all''"
        and e = "Exception ''Expecting value: line 1 column 1 (char 0)''"]
      garbled garbled_state l1
    by (simp add: prod_eq_iff)
  have r3: "suggest_new_words agent_misshapen loads_table validate_table squote [''chat''] 0
       = (Inl (RuntimeError ''words_agent failed: 1 validation error for WordSuggestion''), 1)"
    using suggest_new_words_outcomes [where run = agent_misshapen and loads = loads_table
        and validate = validate_table and repr = squote and known_words = "[''chat'']" and s = 0
        and out = "''wrong shape''" and j = "''wrong shape''"
        and e = "Exception ''1 validation error for WordSuggestion''"]
      misshapen misshapen_state l2 v2
    by (simp add: prod_eq_iff)
  have r4: "suggest_new_words agent_ok loads_table validate_table squote [''chat''] 0
       = (Inr sample_suggestion, 1)"
    using suggest_new_words_outcomes [where run = agent_ok and loads = loads_table
        and validate = validate_table and repr = squote and known_words = "[''chat'']" and s = 0
        and out = "''good''" and j = "''good''" and sg = sample_suggestion]
      ok ok_state l3 v3
    by (simp add: prod_eq_iff)
  from down garbled misshapen ok l1 l2 l3 v2 v3 r1 r2 r3 r4 show ?thesis by simp
qed

section \<open>Properties of the dialogue service\<close>

lemma get_session_registered:
  "(snd (get_session uid reg))(uid \<mapsto> x) = reg(uid \<mapsto> x)"
  by (cases "reg uid") (simp_all add: get_session_def)

lemma ensure_reuse:
  assumes "dialogue_agent (fst (get_session uid reg)) = Some a"
  shows "ensure_dialogue_agent prompt_format json_str create uid kw nw (reg, w)
           = (Inr a, reg, w)"
  using assms
  by (cases "reg uid") (simp_all add: ensure_dialogue_agent_def get_session_def empty_session_def)

lemma ensure_create:
  assumes "dialogue_agent (fst (get_session uid reg)) = None"
    and "prompt_format (list_text json_str kw) (list_text json_str nw) = Inr p"
    and "create p w = (Inr a, w1)"
  shows "ensure_dialogue_agent prompt_format json_str create uid kw nw (reg, w)
           = (Inr a, reg(uid \<mapsto> (fst (get_session uid reg))\<lparr>dialogue_agent := Some a\<rparr>), w1)"
  using assms get_session_registered [of uid reg]
  by (cases "get_session uid reg") (simp add: ensure_dialogue_agent_def)

lemma ensure_format_fails:
  assumes "dialogue_agent (fst (get_session uid reg)) = None"
    and "prompt_format (list_text json_str kw) (list_text json_str nw) = Inl e"
  shows "fst (ensure_dialogue_agent prompt_format json_str create uid kw nw (reg, w)) = Inl e"
  using assms
  by (cases "get_session uid reg") (simp add: ensure_dialogue_agent_def)

lemma ensure_create_fails:
  assumes "dialogue_agent (fst (get_session uid reg)) = None"
    and "prompt_format (list_text json_str kw) (list_text json_str nw) = Inr p"
    and "fst (create p w) = Inl e"
  shows "fst (ensure_dialogue_agent prompt_format json_str create uid kw nw (reg, w)) = Inl e"
  using assms
  by (cases "get_session uid reg"; cases "create p w") (simp add: ensure_dialogue_agent_def)

lemma response_after_ensure:
  assumes "ensure_dialogue_agent prompt_format json_str create uid kw nw st = (Inr a, reg', w')"
  shows "fst (get_dialogue_response prompt_format json_str create run uid kw nw sr hist st)
           = (case fst (run a sr hist w') of
                Inl e \<Rightarrow> Inl (RuntimeError (''dialogue_agent failed: '' @ str_exn e))
              | Inr r \<Rightarrow> Inr r)
         \<and> fst (snd (get_dialogue_response prompt_format json_str create run uid kw nw sr hist st))
           = reg'"
  using assms
  by (cases "run a sr hist w'") (simp add: get_dialogue_response_def split: sum.splits)

lemma response_ensure_fails:
  assumes "fst (ensure_dialogue_agent prompt_format json_str create uid kw nw st) = Inl e"
  shows "fst (get_dialogue_response prompt_format json_str create run uid kw nw sr hist st)
           = Inl (RuntimeError (''dialogue_agent failed: '' @ str_exn e))"
  using assms
  by (cases "ensure_dialogue_agent prompt_format json_str create uid kw nw st")
     (simp add: get_dialogue_response_def split: prod.splits)

text \<open>
  Claim C10. When the user's session holds an agent, \<open>get_dialogue_response\<close> runs
  that agent and leaves the registry, hence the session's \<open>dialogue_agent\<close>, as it
  was: neither the word lists nor the prompt template are consulted. When the session
  holds none, the prompt is the template formatted with the JSON text of the two word
  lists, the agent created from it is stored in the user's session, and that agent is
  run. A failure of the agent run, of the formatting or of the agent's creation is
  raised as \<open>RuntimeError\<close> with the text of the cause.
\<close>

theorem get_dialogue_response_agent:
  "(dialogue_agent (fst (get_session uid reg)) = Some a \<longrightarrow>
      fst (snd (get_dialogue_response prompt_format json_str create run uid kw nw sr hist (reg, w)))
        = reg
      \<and> fst (get_dialogue_response prompt_format json_str create run uid kw nw sr hist (reg, w))
        = (case fst (run a sr hist w) of
             Inl e \<Rightarrow> Inl (RuntimeError (''dialogue_agent failed: '' @ str_exn e))
           | Inr r \<Rightarrow> Inr r))
   \<and> (dialogue_agent (fst (get_session uid reg)) = None
        \<and> prompt_format (list_text json_str kw) (list_text json_str nw) = Inr p
        \<and> create p w = (Inr a, w1) \<longrightarrow>
      fst (snd (get_dialogue_response prompt_format json_str create run uid kw nw sr hist (reg, w)))
        = reg(uid \<mapsto> (fst (get_session uid reg))\<lparr>dialogue_agent := Some a\<rparr>)
      \<and> fst (get_dialogue_response prompt_format json_str create run uid kw nw sr hist (reg, w))
        = (case fst (run a sr hist w1) of
             Inl e \<Rightarrow> Inl (RuntimeError (''dialogue_agent failed: '' @ str_exn e))
           | Inr r \<Rightarrow> Inr r))
   \<and> (dialogue_agent (fst (get_session uid reg)) = None
        \<and> prompt_format (list_text json_str kw) (list_text json_str nw) = Inl e \<longrightarrow>
      fst (get_dialogue_response prompt_format json_str create run uid kw nw sr hist (reg, w))
        = Inl (RuntimeError (''dialogue_agent failed: '' @ str_exn e)))
   \<and> (dialogue_agent (fst (get_session uid reg)) = None
        \<and> prompt_format (list_text json_str kw) (list_text json_str nw) = Inr p
        \<and> fst (create p w) = Inl e \<longrightarrow>
      fst (get_dialogue_response prompt_format json_str create run uid kw nw sr hist (reg, w))
        = Inl (RuntimeError (''dialogue_agent failed: '' @ str_exn e)))"
proof (intro conjI impI)
  assume h: "dialogue_agent (fst (get_session uid reg)) = Some a"
  note r = response_after_ensure [where run = run and sr = sr and hist = hist,
      OF ensure_reuse [where prompt_format = prompt_format and json_str = json_str
        and create = create and kw = kw and nw = nw and w = w, OF h]]
  from r show "fst (snd (get_dialogue_response prompt_format json_str create run uid kw nw sr
      hist (reg, w))) = reg" by simp
  from r show "fst (get_dialogue_response prompt_format json_str create run uid kw nw sr hist
      (reg, w)) = (case fst (run a sr hist w) of
             Inl e \<Rightarrow> Inl (RuntimeError (''dialogue_agent failed: '' @ str_exn e))
           | Inr r \<Rightarrow> Inr r)" by simp
next
  assume h: "dialogue_agent (fst (get_session uid reg)) = None
        \<and> prompt_format (list_text json_str kw) (list_text json_str nw) = Inr p
        \<and> create p w = (Inr a, w1)"
  then have h1: "dialogue_agent (fst (get_session uid reg)) = None"
    and h2: "prompt_format (list_text json_str kw) (list_text json_str nw) = Inr p"
    and h3: "create p w = (Inr a, w1)" by simp_all
  note r = response_after_ensure [where run = run and sr = sr and hist = hist,
      OF ensure_create [where prompt_format = prompt_format and json_str = json_str
        and create = create, OF h1 h2 h3]]
  from r show "fst (snd (get_dialogue_response prompt_format json_str create run uid kw nw sr
      hist (reg, w))) = reg(uid \<mapsto> (fst (get_session uid reg))\<lparr>dialogue_agent := Some a\<rparr>)"
    by simp
  from r show "fst (get_dialogue_response prompt_format json_str create run uid kw nw sr hist
      (reg, w)) = (case fst (run a sr hist w1) of
             Inl e \<Rightarrow> Inl (RuntimeError (''dialogue_agent failed: '' @ str_exn e))
           | Inr r \<Rightarrow> Inr r)" by simp
next
  assume h: "dialogue_agent (fst (get_session uid reg)) = None
        \<and> prompt_format (list_text json_str kw) (list_text json_str nw) = Inl e"
  then have h1: "dialogue_agent (fst (get_session uid reg)) = None"
    and h2: "prompt_format (list_text json_str kw) (list_text json_str nw) = Inl e" by simp_all
  show "fst (get_dialogue_response prompt_format json_str create run uid kw nw sr hist (reg, w))
        = Inl (RuntimeError (''dialogue_agent failed: '' @ str_exn e))"
    by (rule response_ensure_fails [OF ensure_format_fails [where prompt_format = prompt_format
          and json_str = json_str, OF h1 h2]])
next
  assume h: "dialogue_agent (fst (get_session uid reg)) = None
        \<and> prompt_format (list_text json_str kw) (list_text json_str nw) = Inr p
        \<and> fst (create p w) = Inl e"
  then have h1: "dialogue_agent (fst (get_session uid reg)) = None"
    and h2: "prompt_format (list_text json_str kw) (list_text json_str nw) = Inr p"
    and h3: "fst (create p w) = Inl e" by simp_all
  show "fst (get_dialogue_response prompt_format json_str create run uid kw nw sr hist (reg, w))
        = Inl (RuntimeError (''dialogue_agent failed: '' @ str_exn e))"
    by (rule response_ensure_fails [OF ensure_create_fails [where prompt_format = prompt_format
          and json_str = json_str and create = create, OF h1 h2 h3]])
qed


theorem get_dialogue_response_agent_witness:
  "dialogue_agent (fst (get_session ''alice'' alice_registry)) = Some ''first prompt''
   \<and> fst (snd (get_dialogue_response template quote create_ok run_echo ''alice'' [''chat'']
                  [''lait''] ''Bonjour'' [] (alice_registry, 0))) = alice_registry
   \<and> fst (get_dialogue_response template quote create_ok run_echo ''alice'' [''chat'']
             [''lait''] ''Bonjour'' [] (alice_registry, 0))
       = Inr (''Oui.'', [''Bonjour'', ''Oui.''])
   \<and> fst (get_dialogue_response template quote create_ok run_down ''alice'' [''chat'']
             [''lait''] ''Bonjour'' [] (alice_registry, 0))
       = Inl (RuntimeError ''dialogue_agent failed: rate limited'')
   \<and> dialogue_agent (fst (get_session ''alice'' (Map.empty :: (string, string) registry))) = None
   \<and> template (list_text quote [''chat'']) (list_text quote [''lait''])
       = Inr (''Known: ['' @ quote ''chat'' @ ''] New: ['' @ quote ''lait'' @ '']'')
   \<and> create_ok (''Known: ['' @ quote ''chat'' @ ''] New: ['' @ quote ''lait'' @ '']'') 0
       = (Inr (''Known: ['' @ quote ''chat'' @ ''] New: ['' @ quote ''lait'' @ '']''), 0)
   \<and> fst (snd (get_dialogue_response template quote create_ok run_echo ''alice'' [''chat'']
                  [''lait''] ''Bonjour'' [] (Map.empty, 0))) ''alice''
       = Some \<lparr>dialogue_agent
                 = Some (''Known: ['' @ quote ''chat'' @ ''] New: ['' @ quote ''lait'' @ '']''),
               message_history = []\<rparr>
   \<and> template_broken (list_text quote [''chat'']) (list_text quote [''lait''])
       = Inl (Exception ''unknown placeholder'')
   \<and> fst (get_dialogue_response template_broken quote create_ok run_echo ''alice'' [''chat'']
             [''lait''] ''Bonjour'' ([] :: string list) (Map.empty :: (string, string) registry, 0))
       = Inl (RuntimeError ''dialogue_agent failed: unknown placeholder'')
   \<and> fst (create_failing (''Known: ['' @ quote ''chat'' @ ''] New: ['' @ quote ''lait'' @ '']'') 0)
       = Inl (Exception ''no API key'')
   \<and> fst (get_dialogue_response template quote create_failing run_echo ''alice'' [''chat'']
             [''lait''] ''Bonjour'' [] (Map.empty, 0))
       = Inl (RuntimeError ''dialogue_agent failed: no API key'')"
proof -
  let ?p = "''Known: ['' @ quote ''chat'' @ ''] New: ['' @ quote ''lait'' @ '']''"
  have held: "dialogue_agent (fst (get_session ''alice'' alice_registry)) = Some ''first prompt''"
    by (simp add: get_session_def alice_registry_def alice_session_def)
  have fresh:
    "dialogue_agent (fst (get_session ''alice'' (Map.empty :: (string, string) registry))) = None"
    by (simp add: get_session_def empty_session_def)
  have fresh_session:
    "fst (get_session ''alice'' (Map.empty :: (string, string) registry)) = empty_session"
    by (simp add: get_session_def)
  have prompt: "template (list_text quote [''chat'']) (list_text quote [''lait'']) = Inr ?p"
    by (simp add: template_def list_text_def)
  have broken: "template_broken (list_text quote [''chat'']) (list_text quote [''lait''])
       = Inl (Exception ''unknown placeholder'')"
    by (simp add: template_broken_def)
  have created: "create_ok ?p 0 = (Inr ?p, 0)"
    by (simp add: create_ok_def)
  have refused: "fst (create_failing ?p 0) = Inl (Exception ''no API key'')"
    by (simp add: create_failing_def)
  have echo: "fst (run_echo ''first prompt'' ''Bonjour'' [] 0) = Inr (''Oui.'', [''Bonjour'', ''Oui.''])"
    by (simp add: run_echo_def)
  have down: "fst (run_down ''first prompt'' ''Bonjour'' [] 0) = Inl (Exception ''rate limited'')"
    by (simp add: run_down_def)
  have reuse: "fst (snd (get_dialogue_response template quote create_ok run_echo ''alice'' [''chat'']
                  [''lait''] ''Bonjour'' [] (alice_registry, 0))) = alice_registry
     \<and> fst (get_dialogue_response template quote create_ok run_echo ''alice'' [''chat'']
             [''lait''] ''Bonjour'' [] (alice_registry, 0))
       = Inr (''Oui.'', [''Bonjour'', ''Oui.''])"
    using get_dialogue_response_agent [where uid = "''alice''" and reg = alice_registry
        and a = "''first prompt''" and prompt_format = template and json_str = quote
        and create = create_ok and run = run_echo and kw = "[''chat'']" and nw = "[''lait'']"
        and sr = "''Bonjour''" and hist = "[]" and w = 0]
      held echo
    by simp
  have reuse_down: "fst (get_dialogue_response template quote create_ok run_down ''alice''
             [''chat''] [''lait''] ''Bonjour'' [] (alice_registry, 0))
       = Inl (RuntimeError ''dialogue_agent failed: rate limited'')"
    using get_dialogue_response_agent [where uid = "''alice''" and reg = alice_registry
        and a = "''first prompt''" and prompt_format = template and json_str = quote
        and create = create_ok and run = run_down and kw = "[''chat'']" and nw = "[''lait'']"
        and sr = "''Bonjour''" and hist = "[]" and w = 0]
      held down
    by simp
  have build: "fst (snd (get_dialogue_response template quote create_ok run_echo ''alice''
                  [''chat''] [''lait''] ''Bonjour'' [] (Map.empty, 0))) ''alice''
       = Some \<lparr>dialogue_agent = Some ?p, message_history = []\<rparr>"
    using get_dialogue_response_agent [where uid = "''alice''" and reg = Map.empty
        and a = ?p and p = ?p and prompt_format = template and json_str = quote
        and create = create_ok and run = run_echo and kw = "[''chat'']" and nw = "[''lait'']"
        and sr = "''Bonjour''" and hist = "[]" and w = 0 and ?w1.0 = 0]
      fresh fresh_session prompt created
    by (simp add: empty_session_def)
  have no_prompt: "fst (get_dialogue_response template_broken quote create_ok run_echo ''alice''
             [''chat''] [''lait''] ''Bonjour'' ([] :: string list)
             (Map.empty :: (string, string) registry, 0))
       = Inl (RuntimeError ''dialogue_agent failed: unknown placeholder'')"
    using get_dialogue_response_agent [where uid = "''alice''"
        and reg = "Map.empty :: (string, string) registry"
        and prompt_format = template_broken and json_str = quote
        and create = create_ok and run = run_echo and kw = "[''chat'']" and nw = "[''lait'']"
        and sr = "''Bonjour''" and hist = "[]" and w = 0
        and e = "Exception ''unknown placeholder''"]
      fresh broken
    by simp
  have no_agent: "fst (get_dialogue_response template quote create_failing run_echo ''alice''
             [''chat''] [''lait''] ''Bonjour'' [] (Map.empty, 0))
       = Inl (RuntimeError ''dialogue_agent failed: no API key'')"
    using get_dialogue_response_agent [where uid = "''alice''"
        and reg = "Map.empty :: (string, string) registry"
        and prompt_format = template and json_str = quote and p = ?p
        and create = create_failing and run = run_echo and kw = "[''chat'']" and nw = "[''lait'']"
        and sr = "''Bonjour''" and hist = "[]" and w = 0
        and e = "Exception ''no API key''"]
      fresh prompt refused
    by simp
  from held fresh prompt created broken refused reuse reuse_down build no_prompt no_agent
  show ?thesis by simp
qed

end
